theory Spec2Isabelle
  imports Main "HOL-Library.Word" "HOL-Library.Finite_Map" "HOL-Library.AList"
begin

unbundle bit_operations_syntax

section \<open>Values exchanged with the MongoDB driver\<close>

text \<open>
  \<^verbatim>\<open>primitive.ObjectID\<close> is \<^verbatim>\<open>[12]byte\<close>; its zero value \<^verbatim>\<open>primitive.NilObjectID\<close> is
  twelve zero bytes.
\<close>

type_synonym ObjectID = "8 word list"

definition NilObjectID :: ObjectID where
  "NilObjectID = replicate 12 0"

text \<open>
  The Go values that the package puts into filters, updates, pipelines and index keys.
  \<^verbatim>\<open>bson.M\<close> is \<^verbatim>\<open>map[string]interface{}\<close> (unordered, one value per key), \<^verbatim>\<open>bson.D\<close> is
  an ordered slice of \<^verbatim>\<open>bson.E{Key, Value}\<close>, \<^verbatim>\<open>bson.A\<close> a slice of values.
\<close>

datatype bson_value =
    go_nil
  | go_bool bool
  | go_int int
  | go_string string
  | primitive_ObjectID ObjectID
  | bson_A "bson_value list"
  | bson_D "(string \<times> bson_value) list"
  | bson_M "(string, bson_value) fmap"

type_synonym bson_D = "(string \<times> bson_value) list"
type_synonym bson_M = "(string, bson_value) fmap"

section \<open>Parsing an identifier: \<^verbatim>\<open>ObjId\<close>\<close>

text \<open>
  \<^verbatim>\<open>ObjId\<close> calls \<^verbatim>\<open>primitive.ObjectIDFromHex\<close>, a function of the MongoDB driver and of Go's
  \<^verbatim>\<open>encoding/hex\<close>, neither of which belongs to the package. The three definitions below
  stand for that function.
\<close>

datatype hex_error = ErrInvalidHex | InvalidByteError char | ErrLength

definition fromHexChar :: "char \<Rightarrow> 8 word option" where
  \<comment> \<open>Modelled from the spec: the value of one hexadecimal digit of the "fixed-format
      binary/hex" identifier (digits \<^verbatim>\<open>0-9\<close>, \<^verbatim>\<open>a-f\<close>, \<^verbatim>\<open>A-F\<close>); the table of
      \<^verbatim>\<open>encoding/hex\<close> is not part of the package.\<close>
  "fromHexChar c =
     (let n = (of_char c :: nat) in
      if 48 \<le> n \<and> n \<le> 57 then Some (of_nat (n - 48))
      else if 97 \<le> n \<and> n \<le> 102 then Some (of_nat (n - 97 + 10))
      else if 65 \<le> n \<and> n \<le> 70 then Some (of_nat (n - 65 + 10))
      else None)"

fun hex_Decode :: "string \<Rightarrow> hex_error + 8 word list" where
  \<comment> \<open>Modelled from the spec: "parses a hex string", two digits to a byte, failing on a
      character that is no digit and on an odd length; \<^verbatim>\<open>hex.Decode\<close> is not part of the
      package.\<close>
  "hex_Decode (p # q # rest) =
     (case fromHexChar p of
        None \<Rightarrow> Inl (InvalidByteError p)
      | Some a \<Rightarrow>
          (case fromHexChar q of
             None \<Rightarrow> Inl (InvalidByteError q)
           | Some b \<Rightarrow>
               (case hex_Decode rest of
                  Inl e \<Rightarrow> Inl e
                | Inr bs \<Rightarrow> Inr ((push_bit 4 a OR b) # bs))))"
| "hex_Decode [p] =
     (case fromHexChar p of None \<Rightarrow> Inl (InvalidByteError p) | Some a \<Rightarrow> Inl ErrLength)"
| "hex_Decode [] = Inr []"

definition ObjectIDFromHex :: "string \<Rightarrow> ObjectID \<times> hex_error option" where
  \<comment> \<open>Modelled from the spec: "parses a hex string into the storage identifier type; on
      parse failure, returns the zero-value identifier", a failure being a string that is
      "non-hex or wrong-length"; \<^verbatim>\<open>primitive.ObjectIDFromHex\<close> is not part of the package.
      The pair is Go's \<^verbatim>\<open>(ObjectID, error)\<close>, \<open>None\<close> being the \<^verbatim>\<open>nil\<close> error.\<close>
  "ObjectIDFromHex s =
     (if length s \<noteq> 24 then (NilObjectID, Some ErrInvalidHex)
      else (case hex_Decode s of
              Inl e \<Rightarrow> (NilObjectID, Some e)
            | Inr oid \<Rightarrow> (oid, None)))"

definition ObjId :: "string \<Rightarrow> ObjectID" where
  \<comment> \<open>\<^verbatim>\<open>o, _ := primitive.ObjectIDFromHex(s); return o\<close>\<close>
  "ObjId s = (case ObjectIDFromHex s of (o', _) \<Rightarrow> o')"

text \<open>What the spec calls a valid identifier string: 24 characters, each a hex digit.\<close>

definition is_hex_digit :: "char \<Rightarrow> bool" where
  "is_hex_digit c = (c \<in> set ''0123456789abcdefABCDEF'')"

definition valid_hex_id :: "string \<Rightarrow> bool" where
  "valid_hex_id s = (length s = 24 \<and> list_all is_hex_digit s)"

section \<open>Handles, contexts and errors\<close>

text \<open>
  A \<^verbatim>\<open>*mongo.Client\<close> is known here by the URI it was built from, a \<^verbatim>\<open>*mongo.Collection\<close>
  by its client, database name and collection name:
  \<^verbatim>\<open>client.Database(db).Collection(coll)\<close>.
\<close>

datatype Client = mongo_Client string

record Collection =
  collection_client :: Client
  collection_database :: string
  collection_name :: string

definition Database_Collection :: "Client \<Rightarrow> string \<Rightarrow> string \<Rightarrow> Collection" where
  "Database_Collection client db coll =
     \<lparr>collection_client = client, collection_database = db, collection_name = coll\<rparr>"

text \<open>\<^verbatim>\<open>time.Duration\<close> counts nanoseconds; \<^verbatim>\<open>time.Second\<close> is \<open>10\<^sup>9\<close> of them.\<close>

type_synonym Duration = int

definition Second :: Duration where
  "Second = 1000000000"

text \<open>A context is known by the number of contexts created before it.\<close>

type_synonym Context = nat

text \<open>
  A Go \<^verbatim>\<open>error\<close> returned by the package is either made by \<^verbatim>\<open>errors.New\<close> (a text and
  nothing else: no wrapped cause) or a value of the driver's, of the type \<open>'e\<close>.
\<close>

datatype 'e error = errorString string | driver_error 'e

definition errors_New :: "string \<Rightarrow> 'e error" where
  "errors_New text = errorString text"

text \<open>How a function of the package ends: it returns, the process exits
  (\<^verbatim>\<open>log.Fatal\<close>), or it panics (a nil pointer dereference).\<close>

datatype 'a outcome = Return 'a | Exit | Panic

datatype ReturnDocument = Before | After

record FindOneAndUpdateOptions =
  ReturnDocument :: "ReturnDocument option"
  Upsert :: "bool option"

record IndexOptions =
  ExpireAfterSeconds :: "int option"
  Name :: "string option"
  Sparse :: "bool option"
  Unique :: "bool option"
  PartialFilterExpression :: "bson_value option"

record IndexModel =
  Keys :: bson_value
  Options :: IndexOptions

definition options_Index :: IndexOptions where
  \<comment> \<open>\<^verbatim>\<open>options.Index()\<close>: nothing set\<close>
  "options_Index = \<lparr>ExpireAfterSeconds = None, Name = None, Sparse = None, Unique = None,
     PartialFilterExpression = None\<rparr>"

definition SetUnique :: "bool \<Rightarrow> IndexOptions \<Rightarrow> IndexOptions" where
  "SetUnique b opts = opts\<lparr>Unique := Some b\<rparr>"

definition SetSparse :: "bool \<Rightarrow> IndexOptions \<Rightarrow> IndexOptions" where
  "SetSparse b opts = opts\<lparr>Sparse := Some b\<rparr>"

section \<open>The driver and the world\<close>

text \<open>
  The driver is a parameter: a record of its functions, each taking the driver's (and the
  server's) state \<open>'db\<close> and returning the new one. \<open>'m\<close> is the document shape \<^verbatim>\<open>M\<close> of a
  \<^verbatim>\<open>CollectionWrapper[M]\<close>, \<open>'e\<close> the driver's errors, \<open>'r\<close> a \<^verbatim>\<open>*mongo.SingleResult\<close>
  and \<open>'cur\<close> a \<^verbatim>\<open>*mongo.Cursor\<close>. A Go result \<^verbatim>\<open>(x, err)\<close> is a sum, \<open>Inl\<close> the error; a
  lone \<^verbatim>\<open>error\<close> is an option, \<open>None\<close> being \<^verbatim>\<open>nil\<close>. \<^verbatim>\<open>Decode\<close> and \<^verbatim>\<open>All\<close> write through
  a pointer: they take the pointee and return what it holds afterwards.
\<close>

record ('db, 'm, 'e, 'r, 'cur) driver =
  mongo_NewClient :: "string \<Rightarrow> 'db \<Rightarrow> 'e option \<times> 'db"
  Client_Connect :: "Context \<Rightarrow> Client \<Rightarrow> 'db \<Rightarrow> 'e option \<times> 'db"
  Client_Ping :: "Context \<Rightarrow> Client \<Rightarrow> 'db \<Rightarrow> 'e option \<times> 'db"
  Collection_FindOne :: "Context \<Rightarrow> Collection \<Rightarrow> bson_value \<Rightarrow> 'db \<Rightarrow> 'r \<times> 'db"
  Collection_FindOneAndUpdate ::
    "Context \<Rightarrow> Collection \<Rightarrow> bson_value \<Rightarrow> bson_value \<Rightarrow> FindOneAndUpdateOptions list
      \<Rightarrow> 'db \<Rightarrow> 'r \<times> 'db"
  SingleResult_Decode :: "'r \<Rightarrow> 'm \<Rightarrow> 'e option \<times> 'm"
  Collection_InsertOne :: "Context \<Rightarrow> Collection \<Rightarrow> 'm \<Rightarrow> 'db \<Rightarrow> ('e + bson_value) \<times> 'db"
  Collection_Find :: "Context \<Rightarrow> Collection \<Rightarrow> bson_value \<Rightarrow> 'db \<Rightarrow> ('e + 'cur) \<times> 'db"
  Collection_Aggregate :: "Context \<Rightarrow> Collection \<Rightarrow> bson_D list \<Rightarrow> 'db \<Rightarrow> ('e + 'cur) \<times> 'db"
  Cursor_All :: "Context \<Rightarrow> 'cur \<Rightarrow> 'm list \<Rightarrow> 'db \<Rightarrow> ('e option \<times> 'm list) \<times> 'db"
  IndexView_CreateOne :: "Context \<Rightarrow> Collection \<Rightarrow> IndexModel \<Rightarrow> 'db \<Rightarrow> ('e + string) \<times> 'db"

text \<open>
  What the package does to its surroundings, in order: the contexts it creates and
  cancels, the calls it makes to the driver with their arguments, and what it prints.
\<close>

datatype 'e printed = Text string | Error_of 'e

datatype ('m, 'e) event =
    E_WithTimeout Duration Context
  | E_cancel Context
  | E_NewClient string
  | E_Connect Context Client
  | E_Ping Context Client
  | E_FindOne Context Collection bson_value
  | E_FindOneAndUpdate Context Collection bson_value bson_value "FindOneAndUpdateOptions list"
  | E_InsertOne Context Collection 'm
  | E_Find Context Collection bson_value
  | E_Aggregate Context Collection "bson_D list"
  | E_All Context
  | E_CreateOne Context Collection IndexModel
  | E_fmt_Println "'e printed"
  | E_log_Println "'e printed"
  | E_log_Fatal string 'e

text \<open>
  The world: the driver's state, the events so far (oldest first), the number of contexts
  created, and the two package variables \<^verbatim>\<open>var DB *mongo.Client\<close> (\<open>None\<close> is \<^verbatim>\<open>nil\<close>) and
  \<^verbatim>\<open>var DatabaseName string\<close>.
\<close>

record ('db, 'm, 'e) world =
  driver_state :: 'db
  trace :: "('m, 'e) event list"
  contexts :: nat
  DB :: "Client option"
  DatabaseName :: string

definition initial_world :: "'db \<Rightarrow> ('db, 'm, 'e) world" where
  \<comment> \<open>Go's zero values for the package variables\<close>
  "initial_world db = \<lparr>driver_state = db, trace = [], contexts = 0, DB = None, DatabaseName = []\<rparr>"

definition emit :: "('m, 'e) event \<Rightarrow> ('db, 'm, 'e) world \<Rightarrow> ('db, 'm, 'e) world" where
  "emit ev w = w\<lparr>trace := trace w @ [ev]\<rparr>"

definition call ::
  "('m, 'e) event \<Rightarrow> ('db \<Rightarrow> 'a \<times> 'db) \<Rightarrow> ('db, 'm, 'e) world \<Rightarrow> 'a \<times> ('db, 'm, 'e) world" where
  \<comment> \<open>one call to the driver: the event is recorded, the driver's state moves on\<close>
  "call ev f w = (case f (driver_state w) of (x, db') \<Rightarrow> (x, (emit ev w)\<lparr>driver_state := db'\<rparr>))"

definition context_WithTimeout ::
  "Duration \<Rightarrow> ('db, 'm, 'e) world \<Rightarrow> Context \<times> ('db, 'm, 'e) world" where
  \<comment> \<open>\<^verbatim>\<open>context.WithTimeout(context.Background(), d)\<close>: a new context each time\<close>
  "context_WithTimeout d w =
     (contexts w, (emit (E_WithTimeout d (contexts w)) w)\<lparr>contexts := Suc (contexts w)\<rparr>)"

definition cancel :: "Context \<Rightarrow> ('db, 'm, 'e) world \<Rightarrow> ('db, 'm, 'e) world" where
  "cancel ctx w = emit (E_cancel ctx) w"

definition fmt_Println :: "'e printed \<Rightarrow> ('db, 'm, 'e) world \<Rightarrow> ('db, 'm, 'e) world" where
  "fmt_Println x w = emit (E_fmt_Println x) w"

definition log_Println :: "'e printed \<Rightarrow> ('db, 'm, 'e) world \<Rightarrow> ('db, 'm, 'e) world" where
  "log_Println x w = emit (E_log_Println x) w"

definition log_Fatal :: "string \<Rightarrow> 'e \<Rightarrow> ('db, 'm, 'e) world \<Rightarrow> ('db, 'm, 'e) world" where
  \<comment> \<open>prints; the caller then ends with \<open>Exit\<close>, and no deferred call runs\<close>
  "log_Fatal text err w = emit (E_log_Fatal text err) w"

section \<open>The connection: \<^verbatim>\<open>config.go\<close>\<close>

definition ConnectDB ::
  "('db, 'm, 'e, 'r, 'cur) driver \<Rightarrow> string \<Rightarrow> string \<Rightarrow> ('db, 'm, 'e) world
    \<Rightarrow> Client outcome \<times> ('db, 'm, 'e) world" where
  "ConnectDB drv uri databaseName w =
     (let (err, w1) = call (E_NewClient uri) (mongo_NewClient drv uri) w;
          client = mongo_Client uri;
          w2 = w1\<lparr>DatabaseName := databaseName\<rparr>
      in case err of
           Some e \<Rightarrow> (Exit, log_Fatal ''Could not initialize client: '' e w2)
         | None \<Rightarrow>
             (let (ctx, w3) = context_WithTimeout (10 * Second) w2;
                  (err, w4) = call (E_Connect ctx client) (Client_Connect drv ctx client) w3
              in case err of
                   Some e \<Rightarrow> (Exit, log_Fatal ''Could not connect to client: '' e w4)
                 | None \<Rightarrow>
                     (let (err, w5) = call (E_Ping ctx client) (Client_Ping drv ctx client) w4
                      in case err of
                           Some e \<Rightarrow> (Exit, log_Fatal ''Could not ping the database: '' e w5)
                         | None \<Rightarrow>
                             (let w6 = fmt_Println (Text ''Connected to MongoDB'') w5;
                                  w7 = w6\<lparr>DB := Some client\<rparr>
                              in (Return client, cancel ctx w7)))))"

definition GetCollection :: "string \<Rightarrow> ('db, 'm, 'e) world \<Rightarrow> Collection outcome" where
  \<comment> \<open>\<^verbatim>\<open>DB.Database(DatabaseName).Collection(collectionName)\<close>: with \<^verbatim>\<open>DB\<close> nil the driver
      reads the fields of a nil \<^verbatim>\<open>*mongo.Client\<close>\<close>
  "GetCollection collectionName w =
     (case DB w of
        None \<Rightarrow> Panic
      | Some client \<Rightarrow> Return (Database_Collection client (DatabaseName w) collectionName))"

definition CreateIndex ::
  "('db, 'm, 'e, 'r, 'cur) driver \<Rightarrow> string \<Rightarrow> string \<Rightarrow> bool \<Rightarrow> bool \<Rightarrow> ('db, 'm, 'e) world
    \<Rightarrow> bool outcome \<times> ('db, 'm, 'e) world" where
  \<comment> \<open>\<^verbatim>\<open>defer cancel()\<close> also runs when the function panics\<close>
  "CreateIndex drv collectionName field unique sparse w =
     (let mod' = \<lparr>Keys = bson_M (fmupd field (go_int 1) fmempty),
                  Options = SetSparse sparse (SetUnique unique options_Index)\<rparr>;
          (ctx, w1) = context_WithTimeout (5 * Second) w
      in case DB w1 of
           None \<Rightarrow> (Panic, cancel ctx w1)
         | Some client \<Rightarrow>
             (let collection = Database_Collection client (DatabaseName w1) collectionName;
                  (res, w2) = call (E_CreateOne ctx collection mod')
                                (IndexView_CreateOne drv ctx collection mod') w1
              in case res of
                   Inl err \<Rightarrow> (Return False, cancel ctx (fmt_Println (Error_of err) w2))
                 | Inr _ \<Rightarrow> (Return True, cancel ctx w2)))"

section \<open>The collection wrapper: \<^verbatim>\<open>mon.go\<close>\<close>

definition GetContext :: "('db, 'm, 'e) world \<Rightarrow> Context \<times> ('db, 'm, 'e) world" where
  "GetContext w = context_WithTimeout (10 * Second) w"

record CollectionWrapper =
  I :: Collection
  name :: string

definition NewCollectionWrapper ::
  "string \<Rightarrow> ('db, 'm, 'e) world \<Rightarrow> CollectionWrapper outcome" where
  "NewCollectionWrapper nm w =
     (case GetCollection nm w of
        Return collection \<Rightarrow> Return \<lparr>I = collection, name = nm\<rparr>
      | Exit \<Rightarrow> Exit
      | Panic \<Rightarrow> Panic)"

text \<open>
  Each method takes what its pointer argument points to and returns, next to the error
  (\<open>None\<close> is \<^verbatim>\<open>nil\<close>), what it points to afterwards.
\<close>

definition FindOne ::
  "('db, 'm, 'e, 'r, 'cur) driver \<Rightarrow> CollectionWrapper \<Rightarrow> bson_M \<Rightarrow> 'm \<Rightarrow> ('db, 'm, 'e) world
    \<Rightarrow> ('e error option \<times> 'm) \<times> ('db, 'm, 'e) world" where
  "FindOne drv c query model w =
     (let (ctx, w1) = GetContext w;
          (res, w2) = call (E_FindOne ctx (I c) (bson_M query))
                        (Collection_FindOne drv ctx (I c) (bson_M query)) w1;
          (err, model') = SingleResult_Decode drv res model
      in case err of
           Some e \<Rightarrow> ((Some (errors_New ''Cannot find document''), model'), cancel ctx w2)
         | None \<Rightarrow> ((None, model'), cancel ctx w2))"

definition FindOneById ::
  "('db, 'm, 'e, 'r, 'cur) driver \<Rightarrow> CollectionWrapper \<Rightarrow> string \<Rightarrow> 'm \<Rightarrow> ('db, 'm, 'e) world
    \<Rightarrow> ('e error option \<times> 'm) \<times> ('db, 'm, 'e) world" where
  "FindOneById drv c id' model w =
     FindOne drv c (fmupd ''_id'' (primitive_ObjectID (ObjId id')) fmempty) model w"

definition FindOneAndUpdate ::
  "('db, 'm, 'e, 'r, 'cur) driver \<Rightarrow> CollectionWrapper \<Rightarrow> bson_M \<Rightarrow> bson_M \<Rightarrow> 'm
    \<Rightarrow> ('db, 'm, 'e) world \<Rightarrow> ('e error option \<times> 'm) \<times> ('db, 'm, 'e) world" where
  "FindOneAndUpdate drv c find' update updated w =
     (let (ctx, w1) = GetContext w;
          (res, w2) = call (E_FindOneAndUpdate ctx (I c) (bson_M find') (bson_M update) [])
                        (Collection_FindOneAndUpdate drv ctx (I c) (bson_M find') (bson_M update) [])
                        w1;
          (err, updated') = SingleResult_Decode drv res updated
      in case err of
           Some e \<Rightarrow>
             ((Some (errors_New ''Cannot update document''), updated'),
              cancel ctx (fmt_Println (Error_of e) w2))
         | None \<Rightarrow> ((None, updated'), cancel ctx w2))"

definition FindByIdAndUpdate ::
  "('db, 'm, 'e, 'r, 'cur) driver \<Rightarrow> CollectionWrapper \<Rightarrow> string \<Rightarrow> bson_M \<Rightarrow> 'm
    \<Rightarrow> ('db, 'm, 'e) world \<Rightarrow> ('e error option \<times> 'm) \<times> ('db, 'm, 'e) world" where
  "FindByIdAndUpdate drv c idHex update updated w =
     FindOneAndUpdate drv c (fmupd ''_id'' (primitive_ObjectID (ObjId idHex)) fmempty)
       update updated w"

definition New ::
  "('db, 'm, 'e, 'r, 'cur) driver \<Rightarrow> CollectionWrapper \<Rightarrow> 'm \<Rightarrow> ('db, 'm, 'e) world
    \<Rightarrow> 'e error option \<times> ('db, 'm, 'e) world" where
  "New drv c document w =
     (let (ctx, w1) = GetContext w;
          (res, w2) = call (E_InsertOne ctx (I c) document)
                        (Collection_InsertOne drv ctx (I c) document) w1
      in case res of
           Inl err \<Rightarrow> (Some (driver_error err), cancel ctx w2)
         | Inr _ \<Rightarrow> (None, cancel ctx w2))"

definition FindMany ::
  "('db, 'm, 'e, 'r, 'cur) driver \<Rightarrow> CollectionWrapper \<Rightarrow> bson_value \<Rightarrow> 'm list
    \<Rightarrow> ('db, 'm, 'e) world \<Rightarrow> ('e error option \<times> 'm list) \<times> ('db, 'm, 'e) world" where
  "FindMany drv c bson elem w =
     (let (ctx, w1) = GetContext w;
          (res, w2) = call (E_Find ctx (I c) bson) (Collection_Find drv ctx (I c) bson) w1
      in case res of
           Inl err \<Rightarrow> ((Some (driver_error err), elem), cancel ctx w2)
         | Inr cursor \<Rightarrow>
             (let ((err, elem'), w3) = call (E_All ctx) (Cursor_All drv ctx cursor elem) w2
              in case err of
                   Some e \<Rightarrow> ((Some (driver_error e), elem'), cancel ctx w3)
                 | None \<Rightarrow> ((None, elem'), cancel ctx w3)))"

record Populate =
  LocalField :: string
  ForeignModel :: string
  As :: string

definition FindManyPopulate ::
  "('db, 'm, 'e, 'r, 'cur) driver \<Rightarrow> CollectionWrapper \<Rightarrow> bson_D \<Rightarrow> Populate \<Rightarrow> 'm list
    \<Rightarrow> ('db, 'm, 'e) world \<Rightarrow> ('e error option \<times> 'm list) \<times> ('db, 'm, 'e) world" where
  "FindManyPopulate drv c matchQuery populate elem w =
     (let (ctx, w1) = GetContext w;
          match = [(''$match'', bson_D matchQuery)];
          lookup = [(''$lookup'', bson_D
                      [(''from'', go_string (ForeignModel populate)),
                       (''localField'', go_string (LocalField populate)),
                       (''foreignField'', go_string ''_id''),
                       (''as'', go_string (As populate))])];
          (res, w2) = call (E_Aggregate ctx (I c) [match, lookup])
                        (Collection_Aggregate drv ctx (I c) [match, lookup]) w1
      in case res of
           Inl err \<Rightarrow> ((Some (driver_error err), elem), cancel ctx w2)
         | Inr cursor \<Rightarrow>
             (let ((err, elem'), w3) = call (E_All ctx) (Cursor_All drv ctx cursor elem) w2
              in case err of
                   Some e \<Rightarrow>
                     ((Some (driver_error e), elem'), cancel ctx (log_Println (Error_of e) w3))
                 | None \<Rightarrow> ((None, elem'), cancel ctx w3)))"

section \<open>Reading the trace\<close>

definition events_since ::
  "('db, 'm, 'e) world \<Rightarrow> ('db, 'm, 'e) world \<Rightarrow> ('m, 'e) event list" where
  \<comment> \<open>the events that a step from \<open>w\<close> to \<open>w'\<close> added\<close>
  "events_since w w' = drop (length (trace w)) (trace w')"

fun in_context :: "Context \<Rightarrow> ('m, 'e) event \<Rightarrow> bool" where
  \<comment> \<open>a call to the driver under the context \<open>c\<close>, or a print; never the creation or the
      cancellation of a context\<close>
  "in_context c (E_WithTimeout d c') = False"
| "in_context c (E_cancel c') = False"
| "in_context c (E_NewClient uri) = False"
| "in_context c (E_Connect c' cl) = (c' = c)"
| "in_context c (E_Ping c' cl) = (c' = c)"
| "in_context c (E_FindOne c' coll q) = (c' = c)"
| "in_context c (E_FindOneAndUpdate c' coll q u opts) = (c' = c)"
| "in_context c (E_InsertOne c' coll doc) = (c' = c)"
| "in_context c (E_Find c' coll q) = (c' = c)"
| "in_context c (E_Aggregate c' coll p) = (c' = c)"
| "in_context c (E_All c') = (c' = c)"
| "in_context c (E_CreateOne c' coll idx) = (c' = c)"
| "in_context c (E_fmt_Println x) = True"
| "in_context c (E_log_Println x) = True"
| "in_context c (E_log_Fatal t e) = False"

definition bounded_scope ::
  "Duration \<Rightarrow> ('db, 'm, 'e) world \<Rightarrow> ('db, 'm, 'e) world \<Rightarrow> bool" where
  \<comment> \<open>the step from \<open>w\<close> to \<open>w'\<close> created one new context, with the timeout \<open>d\<close>, before
      anything else, made every driver call under it, and cancelled it last\<close>
  "bounded_scope d w w' =
     (take (length (trace w)) (trace w') = trace w \<and>
      contexts w' = Suc (contexts w) \<and>
      (case events_since w w' of
         [] \<Rightarrow> False
       | ev # evs \<Rightarrow>
           ev = E_WithTimeout d (contexts w) \<and> evs \<noteq> [] \<and>
           last evs = E_cancel (contexts w) \<and>
           list_all (in_context (contexts w)) (butlast evs)))"


fun is_CreateOne :: "('m, 'e) event \<Rightarrow> bool" where
  "is_CreateOne (E_CreateOne c coll idx) = True"
| "is_CreateOne ev = False"

fun is_FindOneAndUpdate :: "('m, 'e) event \<Rightarrow> bool" where
  "is_FindOneAndUpdate (E_FindOneAndUpdate c coll q u opts) = True"
| "is_FindOneAndUpdate ev = False"

section \<open>An in-memory driver\<close>

text \<open>
  A small driver to run the package on: one collection held as a list of documents, each
  a \<^verbatim>\<open>bson.D\<close>. It understands a filter on \<^verbatim>\<open>_id\<close> and an update \<^verbatim>\<open>{"$set": bson.D{...}}\<close>,
  refuses aggregation, and follows the MongoDB driver in returning from
  \<^verbatim>\<open>FindOneAndUpdate\<close> the document as it was before the update unless the options ask for
  \<^verbatim>\<open>options.After\<close>. It is not part of the package.
\<close>

datatype mem_error = ErrNoDocuments | ErrNotSupported

type_synonym mem_db = "bson_D list"

definition mem_matches :: "bson_value \<Rightarrow> bson_D \<Rightarrow> bool" where
  "mem_matches filter' doc =
     (case filter' of
        bson_M q \<Rightarrow> (case fmlookup q ''_id'' of
                       None \<Rightarrow> True
                     | Some v \<Rightarrow> map_of doc ''_id'' = Some v)
      | _ \<Rightarrow> True)"

definition mem_apply :: "bson_value \<Rightarrow> bson_D \<Rightarrow> bson_D" where
  "mem_apply update doc =
     (case update of
        bson_M u \<Rightarrow> (case fmlookup u ''$set'' of
                       Some (bson_D sets) \<Rightarrow> fold (\<lambda>(k, v). AList.update k v) sets doc
                     | _ \<Rightarrow> doc)
      | _ \<Rightarrow> doc)"

definition mem_stored :: "mem_db \<Rightarrow> Collection \<Rightarrow> bson_value \<Rightarrow> bson_D option" where
  \<comment> \<open>the first document that matches the filter\<close>
  "mem_stored db coll filter' = find (mem_matches filter') db"

fun mem_replace :: "bson_value \<Rightarrow> bson_value \<Rightarrow> mem_db \<Rightarrow> mem_db" where
  "mem_replace filter' update [] = []"
| "mem_replace filter' update (doc # docs) =
     (if mem_matches filter' doc then mem_apply update doc # docs
      else doc # mem_replace filter' update docs)"

definition mem_return_document :: "FindOneAndUpdateOptions list \<Rightarrow> ReturnDocument" where
  \<comment> \<open>the last option that sets it wins; the default is \<open>Before\<close>\<close>
  "mem_return_document opts =
     fold (\<lambda>opt rd. case ReturnDocument opt of None \<Rightarrow> rd | Some rd' \<Rightarrow> rd') opts Before"

definition mem_driver :: "(mem_db, bson_D, mem_error, bson_D option, bson_D list) driver" where
  "mem_driver =
     \<lparr>mongo_NewClient = (\<lambda>uri db. (None, db)),
      Client_Connect = (\<lambda>ctx client db. (None, db)),
      Client_Ping = (\<lambda>ctx client db. (None, db)),
      Collection_FindOne = (\<lambda>ctx coll filter' db. (mem_stored db coll filter', db)),
      Collection_FindOneAndUpdate = (\<lambda>ctx coll filter' update opts db.
        (case mem_stored db coll filter' of
           None \<Rightarrow> None
         | Some doc \<Rightarrow>
             (case mem_return_document opts of
                Before \<Rightarrow> Some doc
              | After \<Rightarrow> Some (mem_apply update doc)),
         mem_replace filter' update db)),
      SingleResult_Decode = (\<lambda>res model.
        case res of None \<Rightarrow> (Some ErrNoDocuments, model) | Some doc \<Rightarrow> (None, doc)),
      Collection_InsertOne = (\<lambda>ctx coll doc db.
        (Inr (case map_of doc ''_id'' of None \<Rightarrow> go_nil | Some v \<Rightarrow> v), db @ [doc])),
      Collection_Find = (\<lambda>ctx coll filter' db. (Inr (filter (mem_matches filter') db), db)),
      Collection_Aggregate = (\<lambda>ctx coll pipeline db. (Inl ErrNotSupported, db)),
      Cursor_All = (\<lambda>ctx cursor elem db. ((None, cursor), db)),
      IndexView_CreateOne = (\<lambda>ctx coll idx db. (Inr ''index'', db))\<rparr>"

definition king :: bson_D where
  "king = [(''_id'', primitive_ObjectID (ObjId ''62d04ca380bfc30a1436f590'')),
           (''role'', go_string ''King'')]"

definition queen :: bson_D where
  "queen = [(''_id'', primitive_ObjectID (ObjId ''62d04ca380bfc30a1436f591'')),
            (''role'', go_string ''Queen'')]"

definition users :: CollectionWrapper where
  "users = \<lparr>I = Database_Collection (mongo_Client ''mongodb://localhost/my_database'')
                  ''my_database'' ''users'',
            name = ''users''\<rparr>"

definition mem_world :: "(mem_db, bson_D, mem_error) world" where
  \<comment> \<open>the world after \<^verbatim>\<open>ConnectDB("mongodb://localhost/my_database", "my_database")\<close>, the
      collection holding two documents\<close>
  "mem_world =
     \<lparr>driver_state = [king, queen],
      trace = [E_NewClient ''mongodb://localhost/my_database'',
               E_WithTimeout 10000000000 0,
               E_Connect 0 (mongo_Client ''mongodb://localhost/my_database''),
               E_Ping 0 (mongo_Client ''mongodb://localhost/my_database''),
               E_fmt_Println (Text ''Connected to MongoDB''),
               E_cancel 0],
      contexts = 1,
      DB = Some (mongo_Client ''mongodb://localhost/my_database''),
      DatabaseName = ''my_database''\<rparr>"

section \<open>The identifier helper\<close>

lemma is_hex_digit_ranges:
  "is_hex_digit c \<longleftrightarrow> (of_char c :: nat) \<in> {48..57} \<union> {97..102} \<union> {65..70}"
proof -
  have "is_hex_digit c \<longleftrightarrow> (of_char c :: nat) \<in> of_char ` set ''0123456789abcdefABCDEF''"
    unfolding is_hex_digit_def by (simp only: inj_image_mem_iff [OF inj_of_char])
  also have "\<dots> \<longleftrightarrow> (of_char c :: nat) \<in>
      {48,49,50,51,52,53,54,55,56,57,97,98,99,100,101,102,65,66,67,68,69,70}"
    by simp
  also have "\<dots> \<longleftrightarrow> (of_char c :: nat) \<in> {48..57} \<union> {97..102} \<union> {65..70}"
    by (simp only: Un_iff atLeastAtMost_iff insert_iff empty_iff) presburger
  finally show ?thesis .
qed

lemma fromHexChar_None_iff: "fromHexChar c = None \<longleftrightarrow> \<not> is_hex_digit c"
  by (simp add: fromHexChar_def Let_def is_hex_digit_ranges)

lemma hex_Decode_Inr_digits: "hex_Decode s = Inr bs \<Longrightarrow> list_all is_hex_digit s"
proof (induction s arbitrary: bs rule: hex_Decode.induct)
  case (1 p q rest)
  from "1.prems" obtain a b bs' where
    p: "fromHexChar p = Some a" and q: "fromHexChar q = Some b"
    and rest: "hex_Decode rest = Inr bs'"
    by (auto split: option.splits sum.splits)
  from p have "is_hex_digit p" using fromHexChar_None_iff [of p] by simp
  moreover from q have "is_hex_digit q" using fromHexChar_None_iff [of q] by simp
  moreover have "list_all is_hex_digit rest" using "1.IH" [OF p q rest] .
  ultimately show ?case by simp
next
  case (2 p)
  then show ?case by (simp split: option.splits)
next
  case 3
  then show ?case by simp
qed

lemma hex_Decode_digits_Inr:
  "list_all is_hex_digit s \<Longrightarrow> even (length s) \<Longrightarrow>
   \<exists>bs. hex_Decode s = Inr bs \<and> 2 * length bs = length s"
proof (induction s rule: hex_Decode.induct)
  case (1 p q rest)
  from "1.prems" obtain a b where
    p: "fromHexChar p = Some a" and q: "fromHexChar q = Some b"
    using fromHexChar_None_iff [of p] fromHexChar_None_iff [of q] by auto
  from "1.prems" have "list_all is_hex_digit rest" "even (length rest)" by simp_all
  with "1.IH" [OF p q] obtain bs where "hex_Decode rest = Inr bs" "2 * length bs = length rest"
    by blast
  with p q show ?case by simp
next
  case (2 p)
  then show ?case by simp
next
  case 3
  then show ?case by simp
qed

text \<open>A valid string parses, without an error, to twelve bytes.\<close>

lemma ObjectIDFromHex_valid:
  assumes "valid_hex_id s"
  shows "snd (ObjectIDFromHex s) = None \<and> length (ObjId s) = 12"
proof -
  from assms have len: "length s = 24" and digits: "list_all is_hex_digit s"
    by (simp_all add: valid_hex_id_def)
  from hex_Decode_digits_Inr [OF digits] len
  obtain bs where "hex_Decode s = Inr bs" "2 * length bs = length s" by auto
  with len show ?thesis by (simp add: ObjectIDFromHex_def ObjId_def)
qed

lemma NilObjectID_bytes: "NilObjectID = [0, 0, 0, 0, 0, 0, 0, 0, 0, 0, 0, 0]"
  by (simp add: NilObjectID_def eval_nat_numeral)

lemma ObjId_example:
  "ObjId ''62d04ca380bfc30a1436f590'' = [98, 208, 76, 163, 128, 191, 195, 10, 20, 54, 245, 144]"
  by (simp add: ObjId_def ObjectIDFromHex_def fromHexChar_def)

lemma ObjectIDFromHex_invalid:
  assumes "\<not> valid_hex_id s"
  shows "\<exists>e. ObjectIDFromHex s = (NilObjectID, Some e)"
proof (cases "length s = 24")
  case False
  then show ?thesis by (simp add: ObjectIDFromHex_def)
next
  case True
  with assms have "\<not> list_all is_hex_digit s" by (simp add: valid_hex_id_def)
  then obtain e where "hex_Decode s = Inl e"
    using hex_Decode_Inr_digits [of s] by (cases "hex_Decode s") auto
  with True show ?thesis by (simp add: ObjectIDFromHex_def)
qed

lemma ObjId_invalid: "\<not> valid_hex_id s \<Longrightarrow> ObjId s = NilObjectID"
  using ObjectIDFromHex_invalid [of s] by (auto simp: ObjId_def)

text \<open>
  C3. For every string that is not a valid 24-character hex identifier, \<^verbatim>\<open>ObjId\<close> returns
  the zero-value identifier. The parser did report an error there, and \<^verbatim>\<open>ObjId\<close>, whose
  result is an identifier and nothing else, drops it: nothing is raised or returned.
\<close>

theorem ObjId_invalid_is_NilObjectID:
  assumes "\<not> valid_hex_id s"
  shows "ObjId s = NilObjectID \<and> snd (ObjectIDFromHex s) \<noteq> None"
  using ObjectIDFromHex_invalid [OF assms] by (auto simp: ObjId_def)

theorem ObjId_invalid_is_NilObjectID_witness:
  "\<not> valid_hex_id ''USER_ID'' \<and> ObjId ''USER_ID'' = NilObjectID
   \<and> snd (ObjectIDFromHex ''USER_ID'') \<noteq> None"
proof -
  have h: "\<not> valid_hex_id ''USER_ID''" by (simp add: valid_hex_id_def)
  show ?thesis using h ObjId_invalid_is_NilObjectID [OF h] by simp
qed

section \<open>The single-document operations\<close>

lemmas step_defs = call_def emit_def context_WithTimeout_def cancel_def fmt_Println_def
  log_Println_def log_Fatal_def GetContext_def

lemma FindOne_result:
  "fst (FindOne drv c query model w) =
     (let res = fst (Collection_FindOne drv (contexts w) (I c) (bson_M query) (driver_state w));
          (err, model') = SingleResult_Decode drv res model
      in (case err of None \<Rightarrow> None | Some e \<Rightarrow> Some (errorString ''Cannot find document''),
          model'))"
  by (simp add: FindOne_def step_defs errors_New_def Let_def split: prod.splits option.splits)

lemma FindOneAndUpdate_result:
  "fst (FindOneAndUpdate drv c find' update updated w) =
     (let res = fst (Collection_FindOneAndUpdate drv (contexts w) (I c) (bson_M find')
                       (bson_M update) [] (driver_state w));
          (err, updated') = SingleResult_Decode drv res updated
      in (case err of None \<Rightarrow> None | Some e \<Rightarrow> Some (errorString ''Cannot update document''),
          updated'))"
  by (simp add: FindOneAndUpdate_def step_defs errors_New_def Let_def
      split: prod.splits option.splits)

lemma FindOneAndUpdate_events:
  "filter is_FindOneAndUpdate
     (events_since w (snd (FindOneAndUpdate drv c find' update updated w))) =
     [E_FindOneAndUpdate (contexts w) (I c) (bson_M find') (bson_M update) []]"
  by (simp add: FindOneAndUpdate_def events_since_def step_defs Let_def
      split: prod.splits option.splits)

text \<open>
  C1. For every identifier string and every value behind the output pointer,
  \<^verbatim>\<open>FindOneById(id, out)\<close> is \<^verbatim>\<open>FindOne({_id: ObjId(id)}, out)\<close>: the same error, the same
  decoded document, the same calls to the driver. For a malformed \<^verbatim>\<open>id\<close> the filter
  carries the zero-value identifier.
\<close>

theorem FindOneById_equiv:
  "FindOneById drv c id' model w =
     FindOne drv c (fmupd ''_id'' (primitive_ObjectID (ObjId id')) fmempty) model w
   \<and> (\<not> valid_hex_id id' \<longrightarrow>
        FindOneById drv c id' model w =
          FindOne drv c (fmupd ''_id'' (primitive_ObjectID NilObjectID) fmempty) model w)"
  by (simp add: FindOneById_def ObjId_invalid)

theorem FindOneById_equiv_witness:
  "\<not> valid_hex_id ''USER_ID'' \<and>
   FindOneById mem_driver users ''USER_ID'' [] mem_world =
     FindOne mem_driver users (fmupd ''_id'' (primitive_ObjectID NilObjectID) fmempty) []
       mem_world"
proof -
  have h: "\<not> valid_hex_id ''USER_ID''" by (simp add: valid_hex_id_def)
  show ?thesis
    using h FindOneById_equiv [of mem_driver users "''USER_ID''" "[]" mem_world] by blast
qed

text \<open>
  C2. For every identifier string, update document and value behind the output pointer,
  \<^verbatim>\<open>FindByIdAndUpdate(id, u, out)\<close> is \<^verbatim>\<open>FindOneAndUpdate({_id: ObjId(id)}, u, out)\<close>: the
  same error, the same decoded document, the same calls to the driver.
\<close>

theorem FindByIdAndUpdate_equiv:
  "FindByIdAndUpdate drv c idHex update updated w =
     FindOneAndUpdate drv c (fmupd ''_id'' (primitive_ObjectID (ObjId idHex)) fmempty)
       update updated w"
  by (simp add: FindByIdAndUpdate_def)

text \<open>
  C4. \<^verbatim>\<open>FindOne\<close> and \<^verbatim>\<open>FindOneAndUpdate\<close> return \<^verbatim>\<open>nil\<close> when the driver's \<^verbatim>\<open>Decode\<close>
  returns \<^verbatim>\<open>nil\<close>; whenever it returns an error (no document, or one that does not
  decode) they return \<^verbatim>\<open>errors.New("Cannot find document")\<close> and
  \<^verbatim>\<open>errors.New("Cannot update document")\<close>: a fixed text that holds nothing of the
  driver's error, and never the driver's error itself.
\<close>

theorem single_document_errors:
  "fst (fst (FindOne drv c query model w)) =
     (case fst (SingleResult_Decode drv
                 (fst (Collection_FindOne drv (contexts w) (I c) (bson_M query) (driver_state w)))
                 model) of
        None \<Rightarrow> None
      | Some e \<Rightarrow> Some (errorString ''Cannot find document''))
   \<and> fst (fst (FindOneAndUpdate drv c find' update updated w)) =
     (case fst (SingleResult_Decode drv
                 (fst (Collection_FindOneAndUpdate drv (contexts w) (I c) (bson_M find')
                        (bson_M update) [] (driver_state w)))
                 updated) of
        None \<Rightarrow> None
      | Some e \<Rightarrow> Some (errorString ''Cannot update document''))
   \<and> fst (fst (FindOne drv c query model w)) \<noteq> Some (driver_error e1)
   \<and> fst (fst (FindOneAndUpdate drv c find' update updated w)) \<noteq> Some (driver_error e2)"
  by (simp add: FindOne_result FindOneAndUpdate_result Let_def split: prod.splits option.splits)

lemma mem_driver_default_before:
  "mem_stored db coll filter' = Some doc \<Longrightarrow>
   SingleResult_Decode mem_driver
     (fst (Collection_FindOneAndUpdate mem_driver ctx coll filter' upd [] db)) model = (None, d)
   \<Longrightarrow> d = doc"
  by (simp add: mem_driver_def mem_return_document_def)

text \<open>
  C10. \<^verbatim>\<open>FindOneAndUpdate\<close>, and \<^verbatim>\<open>FindByIdAndUpdate\<close> through it, make one
  find-and-update call to the driver, with an empty list of options. So with a driver
  that, given no options, hands over on success the matched document as it was stored
  before the update (the MongoDB driver's default; \<open>stored\<close> reads the first matching
  document off the driver's state), whenever a document matches and the operation returns
  \<^verbatim>\<open>nil\<close>, the document decoded is the one stored before the call, not the updated one.
  The driver may still fail although a document matches, and the operation then returns
  its error.
\<close>

theorem FindOneAndUpdate_returns_document_before:
  fixes stored :: "'db \<Rightarrow> Collection \<Rightarrow> bson_value \<Rightarrow> 'm option"
  assumes default_before:
    "\<And>ctx coll filter' upd db doc model d.
       stored db coll filter' = Some doc \<Longrightarrow>
       SingleResult_Decode drv
         (fst (Collection_FindOneAndUpdate drv ctx coll filter' upd [] db)) model = (None, d)
       \<Longrightarrow> d = doc"
  shows "filter is_FindOneAndUpdate
           (events_since w (snd (FindOneAndUpdate drv c find' update updated w))) =
           [E_FindOneAndUpdate (contexts w) (I c) (bson_M find') (bson_M update) []]
         \<and> filter is_FindOneAndUpdate
           (events_since w (snd (FindByIdAndUpdate drv c idHex update updated w))) =
           [E_FindOneAndUpdate (contexts w) (I c)
              (bson_M (fmupd ''_id'' (primitive_ObjectID (ObjId idHex)) fmempty))
              (bson_M update) []]
         \<and> (stored (driver_state w) (I c) (bson_M find') = Some doc \<longrightarrow>
              fst (fst (FindOneAndUpdate drv c find' update updated w)) = None \<longrightarrow>
              snd (fst (FindOneAndUpdate drv c find' update updated w)) = doc)
         \<and> (stored (driver_state w) (I c)
               (bson_M (fmupd ''_id'' (primitive_ObjectID (ObjId idHex)) fmempty)) = Some doc' \<longrightarrow>
              fst (fst (FindByIdAndUpdate drv c idHex update updated w)) = None \<longrightarrow>
              snd (fst (FindByIdAndUpdate drv c idHex update updated w)) = doc')"
proof -
  have result: "snd (fst (FindOneAndUpdate drv c q update updated w)) = d"
    if st: "stored (driver_state w) (I c) (bson_M q) = Some d"
      and ok: "fst (fst (FindOneAndUpdate drv c q update updated w)) = None" for q d
  proof -
    obtain err d' where dec:
      "SingleResult_Decode drv
         (fst (Collection_FindOneAndUpdate drv (contexts w) (I c) (bson_M q) (bson_M update) []
                (driver_state w))) updated = (err, d')"
      by (cases "SingleResult_Decode drv
         (fst (Collection_FindOneAndUpdate drv (contexts w) (I c) (bson_M q) (bson_M update) []
                (driver_state w))) updated") blast
    from ok dec have "err = None"
      by (simp add: FindOneAndUpdate_result split: option.splits)
    with dec default_before [OF st] have "d' = d" by blast
    with dec show ?thesis by (simp add: FindOneAndUpdate_result)
  qed
  show ?thesis
    unfolding FindByIdAndUpdate_def
    using result by (simp add: FindOneAndUpdate_events)
qed

theorem FindOneAndUpdate_returns_document_before_witness:
  "mem_stored (driver_state mem_world) (I users)
     (bson_M (fmupd ''_id'' (primitive_ObjectID (ObjId ''62d04ca380bfc30a1436f590'')) fmempty)) =
     Some king
   \<and> fst (fst (FindOneAndUpdate mem_driver users
            (fmupd ''_id'' (primitive_ObjectID (ObjId ''62d04ca380bfc30a1436f590'')) fmempty)
            (fmupd ''$set'' (bson_D [(''role'', go_string ''Emperor'')]) fmempty) []
            mem_world)) = None
   \<and> snd (fst (FindOneAndUpdate mem_driver users
            (fmupd ''_id'' (primitive_ObjectID (ObjId ''62d04ca380bfc30a1436f590'')) fmempty)
            (fmupd ''$set'' (bson_D [(''role'', go_string ''Emperor'')]) fmempty) []
            mem_world)) = king
   \<and> fst (fst (FindByIdAndUpdate mem_driver users ''62d04ca380bfc30a1436f590''
            (fmupd ''$set'' (bson_D [(''role'', go_string ''Emperor'')]) fmempty) []
            mem_world)) = None
   \<and> snd (fst (FindByIdAndUpdate mem_driver users ''62d04ca380bfc30a1436f590''
            (fmupd ''$set'' (bson_D [(''role'', go_string ''Emperor'')]) fmempty) []
            mem_world)) = king
   \<and> driver_state (snd (FindByIdAndUpdate mem_driver users ''62d04ca380bfc30a1436f590''
            (fmupd ''$set'' (bson_D [(''role'', go_string ''Emperor'')]) fmempty) []
            mem_world)) =
       [[(''_id'', primitive_ObjectID (ObjId ''62d04ca380bfc30a1436f590'')),
         (''role'', go_string ''Emperor'')], queen]"
proof -
  let ?find = "fmupd ''_id'' (primitive_ObjectID (ObjId ''62d04ca380bfc30a1436f590'')) fmempty"
  let ?update = "fmupd ''$set'' (bson_D [(''role'', go_string ''Emperor'')]) fmempty"
  have m: "mem_stored (driver_state mem_world) (I users) (bson_M ?find) = Some king"
    by (simp add: mem_stored_def mem_world_def mem_matches_def king_def)
  have ok: "fst (fst (FindOneAndUpdate mem_driver users ?find ?update [] mem_world)) = None"
    by (simp add: FindOneAndUpdate_result mem_driver_def mem_world_def mem_stored_def
        mem_matches_def mem_return_document_def king_def)
  have ok_id: "fst (fst (FindByIdAndUpdate mem_driver users ''62d04ca380bfc30a1436f590''
      ?update [] mem_world)) = None"
    using ok by (simp add: FindByIdAndUpdate_def)
  have after: "driver_state (snd (FindByIdAndUpdate mem_driver users ''62d04ca380bfc30a1436f590''
      ?update [] mem_world)) =
      [[(''_id'', primitive_ObjectID (ObjId ''62d04ca380bfc30a1436f590'')),
        (''role'', go_string ''Emperor'')], queen]"
    by (simp add: FindByIdAndUpdate_def FindOneAndUpdate_def step_defs mem_driver_def
        mem_world_def mem_stored_def mem_matches_def mem_apply_def king_def Let_def
        split: prod.splits option.splits)
  from FindOneAndUpdate_returns_document_before [where drv = mem_driver and stored = mem_stored
      and w = mem_world and c = users and find' = ?find and doc = king and doc' = king
      and update = ?update and updated = "[]" and idHex = "''62d04ca380bfc30a1436f590''"]
    m ok ok_id
  have "snd (fst (FindOneAndUpdate mem_driver users ?find ?update [] mem_world)) = king"
    and "snd (fst (FindByIdAndUpdate mem_driver users ''62d04ca380bfc30a1436f590'' ?update []
           mem_world)) = king"
    by (blast intro: mem_driver_default_before)+
  with m ok ok_id after show ?thesis by simp
qed

section \<open>Insertion and the multi-document operations\<close>

text \<open>
  C5. \<^verbatim>\<open>New\<close>, \<^verbatim>\<open>FindMany\<close> and \<^verbatim>\<open>FindManyPopulate\<close> return the error of the driver as it
  is, whether it comes from \<^verbatim>\<open>InsertOne\<close>, \<^verbatim>\<open>Find\<close>, \<^verbatim>\<open>Aggregate\<close> or from the cursor's
  \<^verbatim>\<open>All\<close>, and \<^verbatim>\<open>nil\<close> when the driver reports none.
\<close>

theorem multi_document_errors:
  "fst (New drv c document w) =
     (case fst (Collection_InsertOne drv (contexts w) (I c) document (driver_state w)) of
        Inl err \<Rightarrow> Some (driver_error err)
      | Inr x \<Rightarrow> None)
   \<and> fst (fst (FindMany drv c bson elem w)) =
     (case Collection_Find drv (contexts w) (I c) bson (driver_state w) of
        (Inl err, db1) \<Rightarrow> Some (driver_error err)
      | (Inr cursor, db1) \<Rightarrow>
          (case fst (fst (Cursor_All drv (contexts w) cursor elem db1)) of
             Some err \<Rightarrow> Some (driver_error err)
           | None \<Rightarrow> None))
   \<and> fst (fst (FindManyPopulate drv c matchQuery populate elem w)) =
     (case Collection_Aggregate drv (contexts w) (I c)
             [[(''$match'', bson_D matchQuery)],
              [(''$lookup'', bson_D
                  [(''from'', go_string (ForeignModel populate)),
                   (''localField'', go_string (LocalField populate)),
                   (''foreignField'', go_string ''_id''),
                   (''as'', go_string (As populate))])]]
             (driver_state w) of
        (Inl err, db1) \<Rightarrow> Some (driver_error err)
      | (Inr cursor, db1) \<Rightarrow>
          (case fst (fst (Cursor_All drv (contexts w) cursor elem db1)) of
             Some err \<Rightarrow> Some (driver_error err)
           | None \<Rightarrow> None))"
  by (simp add: New_def FindMany_def FindManyPopulate_def step_defs Let_def
      split: prod.splits option.splits sum.splits)


section \<open>Index creation\<close>

text \<open>
  C7. With the client handle set, for every collection name, field name and pair of
  flags, \<^verbatim>\<open>CreateIndex\<close> creates a context with a timeout of five seconds, asks the driver
  once for one index, whose key is the given field alone with the value 1 and whose
  options set \<^verbatim>\<open>unique\<close> and \<^verbatim>\<open>sparse\<close> and nothing else, and cancels the context. When the
  driver fails it prints the error and returns \<^verbatim>\<open>false\<close>; otherwise it returns \<^verbatim>\<open>true\<close>. Its
  result is a boolean: no error value comes out.
\<close>

theorem CreateIndex_request:
  assumes "DB w = Some client"
  shows "let ctx = contexts w;
             coll = Database_Collection client (DatabaseName w) collectionName;
             idx = \<lparr>Keys = bson_M (fmupd field (go_int 1) fmempty),
                    Options = \<lparr>ExpireAfterSeconds = None, Name = None, Sparse = Some sparse,
                                Unique = Some unique, PartialFilterExpression = None\<rparr>\<rparr>;
             res = fst (IndexView_CreateOne drv ctx coll idx (driver_state w));
             (ok, w') = CreateIndex drv collectionName field unique sparse w
         in events_since w w' =
              [E_WithTimeout (5 * Second) ctx, E_CreateOne ctx coll idx]
              @ (case res of Inl err \<Rightarrow> [E_fmt_Println (Error_of err)] | Inr x \<Rightarrow> [])
              @ [E_cancel ctx]
            \<and> ok = Return (case res of Inl err \<Rightarrow> False | Inr x \<Rightarrow> True)"
  using assms
  by (simp add: CreateIndex_def events_since_def step_defs Let_def options_Index_def
      SetUnique_def SetSparse_def split: prod.splits option.splits sum.splits)

theorem CreateIndex_request_witness:
  "DB mem_world = Some (mongo_Client ''mongodb://localhost/my_database'') \<and>
   events_since mem_world
     (snd (CreateIndex mem_driver ''users'' ''passport_number'' True False mem_world)) =
     [E_WithTimeout 5000000000 1,
      E_CreateOne 1 (I users)
        \<lparr>Keys = bson_M (fmupd ''passport_number'' (go_int 1) fmempty),
         Options = \<lparr>ExpireAfterSeconds = None, Name = None, Sparse = Some False,
                     Unique = Some True, PartialFilterExpression = None\<rparr>\<rparr>,
      E_cancel 1] \<and>
   fst (CreateIndex mem_driver ''users'' ''passport_number'' True False mem_world) = Return True"
proof -
  have h: "DB mem_world = Some (mongo_Client ''mongodb://localhost/my_database'')"
    by (simp add: mem_world_def)
  have w: "contexts mem_world = 1" "DatabaseName mem_world = ''my_database''"
    by (simp_all add: mem_world_def)
  show ?thesis
    using h CreateIndex_request [OF h, where collectionName = "''users''"
        and field = "''passport_number''" and unique = True and sparse = False
        and drv = mem_driver]
    by (simp add: Let_def case_prod_beta w mem_driver_def users_def Second_def
        Database_Collection_def)
qed

section \<open>Contexts\<close>

lemma FindOne_scope: "bounded_scope (10 * Second) w (snd (FindOne drv c query model w))"
  by (simp add: FindOne_def bounded_scope_def events_since_def step_defs Let_def
      split: prod.splits option.splits)

lemma FindOneAndUpdate_scope:
  "bounded_scope (10 * Second) w (snd (FindOneAndUpdate drv c find' update updated w))"
  by (simp add: FindOneAndUpdate_def bounded_scope_def events_since_def step_defs Let_def
      split: prod.splits option.splits)

lemma New_scope: "bounded_scope (10 * Second) w (snd (New drv c document w))"
  by (simp add: New_def bounded_scope_def events_since_def step_defs Let_def
      split: prod.splits sum.splits)

lemma FindMany_scope: "bounded_scope (10 * Second) w (snd (FindMany drv c bson elem w))"
  by (simp add: FindMany_def bounded_scope_def events_since_def step_defs Let_def
      split: prod.splits option.splits sum.splits)

lemma FindManyPopulate_scope:
  "bounded_scope (10 * Second) w (snd (FindManyPopulate drv c matchQuery populate elem w))"
  by (simp add: FindManyPopulate_def bounded_scope_def events_since_def step_defs Let_def
      split: prod.splits option.splits sum.splits)

lemma CreateIndex_scope:
  "bounded_scope (5 * Second) w (snd (CreateIndex drv collectionName field unique sparse w))"
  by (simp add: CreateIndex_def bounded_scope_def events_since_def step_defs Let_def
      split: prod.splits option.splits sum.splits)

text \<open>
  C8. Every operation of the collection wrapper first creates a context of its own with a
  timeout of ten seconds, makes its driver calls under that context and no other, and
  cancels it last, whatever the driver answers; \<^verbatim>\<open>CreateIndex\<close> does the same with five
  seconds, also when it panics. No operation takes a context or a timeout as an argument:
  the statement holds for all arguments, with the same two durations.
\<close>

theorem every_operation_bounded:
  "bounded_scope (10 * Second) w (snd (FindOne drv c query model w))
   \<and> bounded_scope (10 * Second) w (snd (FindOneById drv c id' model w))
   \<and> bounded_scope (10 * Second) w (snd (FindOneAndUpdate drv c find' update updated w))
   \<and> bounded_scope (10 * Second) w (snd (FindByIdAndUpdate drv c idHex update updated w))
   \<and> bounded_scope (10 * Second) w (snd (New drv c document w))
   \<and> bounded_scope (10 * Second) w (snd (FindMany drv c bson elem w))
   \<and> bounded_scope (10 * Second) w (snd (FindManyPopulate drv c matchQuery populate elem w))
   \<and> bounded_scope (5 * Second) w (snd (CreateIndex drv collectionName field unique sparse w))"
  by (simp only: FindOneById_def FindByIdAndUpdate_def FindOne_scope FindOneAndUpdate_scope
      New_scope FindMany_scope FindManyPopulate_scope CreateIndex_scope simp_thms)

section \<open>The client handle\<close>

lemma ConnectDB_outcome:
  "(case mongo_NewClient drv uri (driver_state w) of
      (e1, db1) \<Rightarrow>
        (case Client_Connect drv (contexts w) (mongo_Client uri) db1 of
           (e2, db2) \<Rightarrow>
             (case Client_Ping drv (contexts w) (mongo_Client uri) db2 of
                (e3, db3) \<Rightarrow>
                  fst (ConnectDB drv uri databaseName w) =
                    (if e1 = None \<and> e2 = None \<and> e3 = None
                     then Return (mongo_Client uri) else Exit))))"
  by (simp add: ConnectDB_def step_defs Let_def split: prod.splits option.splits)

lemma ConnectDB_sets_DB:
  "DB (snd (ConnectDB drv uri databaseName w)) =
     (case fst (ConnectDB drv uri databaseName w) of
        Return client \<Rightarrow> Some client
      | Exit \<Rightarrow> DB w
      | Panic \<Rightarrow> DB w)"
  by (simp add: ConnectDB_def step_defs Let_def split: prod.splits option.splits)

lemma operations_keep_DB:
  "DB (snd (CreateIndex drv collectionName field unique sparse w)) = DB w"
  "DB (snd (FindOne drv c query model w)) = DB w"
  "DB (snd (FindOneAndUpdate drv c find' update updated w)) = DB w"
  "DB (snd (New drv c document w)) = DB w"
  "DB (snd (FindMany drv c bson elem w)) = DB w"
  "DB (snd (FindManyPopulate drv c matchQuery populate elem w)) = DB w"
  by (simp_all add: CreateIndex_def FindOne_def FindOneAndUpdate_def New_def FindMany_def
      FindManyPopulate_def step_defs Let_def split: prod.splits option.splits sum.splits)

text \<open>
  C9. \<^verbatim>\<open>GetCollection\<close>, and \<^verbatim>\<open>NewCollectionWrapper\<close> with it, panic exactly when the
  client handle \<^verbatim>\<open>DB\<close> is nil, as it is when the program starts. \<^verbatim>\<open>ConnectDB\<close> sets the
  handle exactly when it returns, which it does exactly when creating the client,
  connecting and pinging all succeed (otherwise the process exits); no other function of
  the package changes the handle.
\<close>

theorem GetCollection_needs_ConnectDB:
  "(GetCollection nm w = Panic) = (DB w = None)
   \<and> (NewCollectionWrapper nm w = Panic) = (DB w = None)
   \<and> GetCollection nm (initial_world db0 :: ('db, 'm, 'e) world) = Panic
   \<and> DB (snd (ConnectDB drv uri databaseName w)) =
       (case fst (ConnectDB drv uri databaseName w) of
          Return client \<Rightarrow> Some client
        | Exit \<Rightarrow> DB w
        | Panic \<Rightarrow> DB w)
   \<and> (case mongo_NewClient drv uri (driver_state w) of
        (e1, db1) \<Rightarrow>
          (case Client_Connect drv (contexts w) (mongo_Client uri) db1 of
             (e2, db2) \<Rightarrow>
               (case Client_Ping drv (contexts w) (mongo_Client uri) db2 of
                  (e3, db3) \<Rightarrow>
                    fst (ConnectDB drv uri databaseName w) =
                      (if e1 = None \<and> e2 = None \<and> e3 = None
                       then Return (mongo_Client uri) else Exit))))
   \<and> DB (snd (CreateIndex drv collectionName field unique sparse w)) = DB w
   \<and> DB (snd (FindOne drv c query model w)) = DB w
   \<and> DB (snd (FindOneById drv c id' model w)) = DB w
   \<and> DB (snd (FindOneAndUpdate drv c find' update updated w)) = DB w
   \<and> DB (snd (FindByIdAndUpdate drv c idHex update updated w)) = DB w
   \<and> DB (snd (New drv c document w)) = DB w
   \<and> DB (snd (FindMany drv c bson elem w)) = DB w
   \<and> DB (snd (FindManyPopulate drv c matchQuery populate elem w)) = DB w"
proof -
  have 1: "(GetCollection nm w = Panic) = (DB w = None)"
    by (simp add: GetCollection_def split: option.splits)
  have 2: "(NewCollectionWrapper nm w = Panic) = (DB w = None)"
    by (simp add: NewCollectionWrapper_def GetCollection_def split: option.splits)
  have 3: "GetCollection nm (initial_world db0 :: ('db, 'm, 'e) world) = Panic"
    by (simp add: GetCollection_def initial_world_def)
  show ?thesis
    by (simp only: 1 2 3 ConnectDB_sets_DB [symmetric] ConnectDB_outcome operations_keep_DB
        FindOneById_def FindByIdAndUpdate_def simp_thms)
qed

section \<open>The package on the in-memory driver\<close>

lemma ConnectDB_example:
  "ConnectDB mem_driver ''mongodb://localhost/my_database'' ''my_database''
     (initial_world [king, queen]) =
     (Return (mongo_Client ''mongodb://localhost/my_database''), mem_world)"
  by (simp add: ConnectDB_def step_defs mem_driver_def mem_world_def initial_world_def
      Second_def Let_def)

lemma FindOneById_example:
  "fst (FindOneById mem_driver users ''USER_ID'' [] mem_world) =
     (Some (errorString ''Cannot find document''), [])"
  by (simp add: FindOneById_def FindOne_result mem_driver_def mem_world_def mem_stored_def
      mem_matches_def king_def queen_def ObjId_def ObjectIDFromHex_def NilObjectID_bytes
      fromHexChar_def)

lemma FindManyPopulate_example:
  "fst (FindManyPopulate mem_driver users []
          \<lparr>LocalField = ''Quizzes.Ids'', ForeignModel = ''quiz_templates'', As = ''Quizzes.Data''\<rparr>
          [] mem_world) = (Some (driver_error ErrNotSupported), [])"
  by (simp add: FindManyPopulate_def step_defs mem_driver_def)

end
